theory Spec2Isabelle
  imports Main
begin

section \<open>Python strings and the built-in string methods the program uses\<close>

text \<open>
  A Python \<open>str\<close> is a sequence of Unicode code points, so a text is a list of code
  points (natural numbers), not of bytes. \<open>ustr\<close> writes an ASCII literal as such a text.
\<close>

type_synonym codepoint = nat
type_synonym str = "codepoint list"

definition ustr :: "string \<Rightarrow> str" where
  "ustr cs = map of_char cs"

text \<open>
  \<open>str.splitlines()\<close> ends a line at each of the code points below; the pair
  carriage return, line feed counts as one line end.
\<close>

definition is_linebreak :: "codepoint \<Rightarrow> bool" where
  "is_linebreak c \<longleftrightarrow>
     c \<in> set [0x0A, 0x0B, 0x0C, 0x0D, 0x1C, 0x1D, 0x1E, 0x85, 0x2028, 0x2029]"

text \<open>
  \<open>splitlines_from cur s\<close> scans \<open>s\<close> with the line read so far in \<open>cur\<close>. A line is
  emitted at each line end; what remains after the last line end is a line only when it is
  not empty (so \<open>"a\n".splitlines() = ["a"]\<close> and \<open>"".splitlines() = []\<close>).
\<close>

fun splitlines_from :: "str \<Rightarrow> str \<Rightarrow> str list" where
  "splitlines_from cur [] = (if cur = [] then [] else [cur])"
| "splitlines_from cur [c] = (if is_linebreak c then [cur] else [cur @ [c]])"
| "splitlines_from cur (c # d # cs) =
     (if c = 0x0D \<and> d = 0x0A then cur # splitlines_from [] cs
      else if is_linebreak c then cur # splitlines_from [] (d # cs)
      else splitlines_from (cur @ [c]) (d # cs))"

definition splitlines :: "str \<Rightarrow> str list" where
  "splitlines s = splitlines_from [] s"

text \<open>\<open>str.strip()\<close> without argument removes leading and trailing white space,
  the code points for which \<open>str.isspace\<close> holds.\<close>

definition is_space :: "codepoint \<Rightarrow> bool" where
  "is_space c \<longleftrightarrow>
     (0x09 \<le> c \<and> c \<le> 0x0D) \<or> (0x1C \<le> c \<and> c \<le> 0x20) \<or> c = 0x85 \<or> c = 0xA0 \<or>
     c = 0x1680 \<or> (0x2000 \<le> c \<and> c \<le> 0x200A) \<or> c = 0x2028 \<or> c = 0x2029 \<or>
     c = 0x202F \<or> c = 0x205F \<or> c = 0x3000"

definition strip :: "str \<Rightarrow> str" where
  "strip s = rev (dropWhile is_space (rev (dropWhile is_space s)))"

text \<open>\<open>sep.join(xs)\<close>.\<close>

fun str_join :: "str \<Rightarrow> str list \<Rightarrow> str" where
  "str_join sep [] = []"
| "str_join sep [x] = x"
| "str_join sep (x # y # ys) = x @ sep @ str_join sep (y # ys)"

definition nl :: str where
  "nl = [0x0A]"

definition dash3 :: str where
  "dash3 = ustr ''---''"

section \<open>The block locator\<close>

text \<open>
  The first loop of \<open>find_yaml_block_indices\<close> runs over \<open>enumerate(lines)\<close> and
  breaks at the first line whose stripped content is \<open>---\<close>; the second runs over
  \<open>range(start_index + 1, len(lines))\<close> and breaks in the same way. A loop that ends
  without a break leaves its index \<open>None\<close>.
\<close>

fun first_delimiter :: "(nat \<times> str) list \<Rightarrow> nat option" where
  "first_delimiter [] = None"
| "first_delimiter ((idx, line) # rest) =
     (if strip line = dash3 then Some idx else first_delimiter rest)"

fun next_delimiter :: "str list \<Rightarrow> nat list \<Rightarrow> nat option" where
  "next_delimiter lines [] = None"
| "next_delimiter lines (idx # rest) =
     (if strip (lines ! idx) = dash3 then Some idx else next_delimiter lines rest)"

definition find_yaml_block_indices :: "str \<Rightarrow> nat option \<times> nat option" where
  "find_yaml_block_indices content =
     (let lines = splitlines content in
      case first_delimiter (enumerate 0 lines) of
        None \<Rightarrow> (None, None)
      | Some start_index \<Rightarrow>
          (Some start_index, next_delimiter lines [start_index + 1 ..< length lines]))"

section \<open>The block parser\<close>

text \<open>
  The YAML library is not part of the program: \<open>yaml.safe_load\<close> and
  \<open>yaml.safe_dump\<close> are parameters of the model. Either call returns a value or raises
  an exception of the library (\<open>Inl\<close>). What \<open>safe_load\<close> returns is a \<open>dict\<close> or
  some other object; \<open>isinstance(data, dict)\<close> tells the two apart.
\<close>

datatype ('d, 'o) pyobj = Dict 'd | NotDict 'o

datatype 'x exn = YamlBlockNotFound | OtherException 'x

text \<open>
  \<open>extract_yaml_data\<close> raises \<open>YamlBlockNotFound\<close> when either index is \<open>None\<close>;
  an exception of \<open>yaml.safe_load\<close> is logged and raised again. The slice
  \<open>lines[start_index + 1 : end_index]\<close> is \<open>drop (start_index + 1) (take end_index lines)\<close>.
\<close>

definition extract_yaml_data ::
  "(str \<Rightarrow> 'x + ('d, 'o) pyobj) \<Rightarrow> str \<Rightarrow> 'x exn + (('d, 'o) pyobj \<times> nat \<times> nat)" where
  "extract_yaml_data safe_load content =
     (let lines = splitlines content;
          (start_index, end_index) = find_yaml_block_indices content
      in if start_index = None \<or> end_index = None then Inl YamlBlockNotFound
         else
           (let yaml_lines = drop (the start_index + 1) (take (the end_index) lines);
                yaml_text = str_join nl yaml_lines
            in case safe_load yaml_text of
                 Inl e \<Rightarrow> Inl (OtherException e)
               | Inr data \<Rightarrow> Inr (data, the start_index, the end_index)))"

section \<open>The field updater\<close>

text \<open>
  \<open>update_yaml_field\<close> builds \<open>dict(data)\<close>, prints it and returns it. A dictionary is
  an association list in insertion order. At the level of values the copy has the
  entries of its argument. The built-in \<open>print\<close> is a parameter of the model, as the
  YAML library is: \<open>print(updated_data)\<close> converts the dictionary to text and writes it,
  and either step can raise (\<open>Inl\<close>); the exception then leaves \<open>update_yaml_field\<close>.
\<close>

definition update_yaml_field ::
  "(('k \<times> 'v) list \<Rightarrow> 'x + unit) \<Rightarrow> ('k \<times> 'v) list \<Rightarrow> 'x + ('k \<times> 'v) list" where
  "update_yaml_field py_print data =
     (let updated_data = data in
      case py_print updated_data of
        Inl e \<Rightarrow> Inl e
      | Inr u \<Rightarrow> Inr updated_data)"

text \<open>
  Whether the argument itself is touched is a question about objects, not values. In the
  store below every dictionary object has an address; the values of a dictionary are
  whatever the entries hold (for nested objects, their addresses, which \<open>dict(data)\<close>
  copies as they are: the copy is shallow). \<open>dict(data)\<close> allocates a new object;
  \<open>print\<close> appends to the standard output when it returns, and when it raises the call
  ends with the exception, in the store as it is then (what an interrupted \<open>print\<close> has
  already written is not recorded). The result is the store after the call with the
  exception or the address returned. The call is \<open>None\<close> when \<open>data\<close> is not the
  address of a dictionary, which the type annotation of the source excludes.
\<close>

record ('k, 'v) store =
  heap :: "nat \<rightharpoonup> ('k \<times> 'v) list"
  next_addr :: nat
  stdout :: "('k \<times> 'v) list list"

definition update_yaml_field_store ::
  "(('k \<times> 'v) list \<Rightarrow> 'x + unit) \<Rightarrow> ('k, 'v) store \<Rightarrow> nat \<Rightarrow>
   (('k, 'v) store \<times> ('x + nat)) option" where
  "update_yaml_field_store py_print st data =
     (case heap st data of
        None \<Rightarrow> None
      | Some entries \<Rightarrow>
          (let updated_data = next_addr st;
               st1 = st\<lparr>heap := (heap st)(updated_data \<mapsto> entries),
                        next_addr := Suc updated_data\<rparr>
           in case py_print entries of
                Inl e \<Rightarrow> Some (st1, Inl e)
              | Inr u \<Rightarrow> Some (st1\<lparr>stdout := stdout st1 @ [entries]\<rparr>, Inr updated_data)))"

definition store_ok :: "('k, 'v) store \<Rightarrow> bool" where
  "store_ok st \<longleftrightarrow> (\<forall>a. heap st a \<noteq> None \<longrightarrow> a < next_addr st)"

section \<open>The content rebuilder and the transformation of a text\<close>

definition build_updated_content :: "str \<Rightarrow> nat \<Rightarrow> nat \<Rightarrow> str \<Rightarrow> str" where
  "build_updated_content content start_index end_index updated_yaml =
     (let lines = splitlines content;
          new_content_lines =
            take start_index lines @ [dash3] @ splitlines updated_yaml @ [dash3] @
            drop (end_index + 1) lines
      in str_join nl new_content_lines)"

text \<open>
  \<open>update_yaml_content\<close> catches \<open>YamlBlockNotFound\<close> and every other exception of
  \<open>extract_yaml_data\<close> and returns the text it was given; so it does when the parsed
  value is not a \<open>dict\<close>. The calls after that are outside the \<open>try\<close>: an exception of
  \<open>update_yaml_field\<close> (of its \<open>print\<close>) or of \<open>yaml.safe_dump\<close> leaves the function
  (\<open>Inl\<close>). Logging does not change the result and is left out.
\<close>

definition update_yaml_content ::
  "(str \<Rightarrow> 'x + (('k \<times> 'v) list, 'o) pyobj) \<Rightarrow> (('k \<times> 'v) list \<Rightarrow> 'x + str) \<Rightarrow>
   (('k \<times> 'v) list \<Rightarrow> 'x + unit) \<Rightarrow> str \<Rightarrow> 'x + str"
  where
  "update_yaml_content safe_load safe_dump py_print content =
     (case extract_yaml_data safe_load content of
        Inl YamlBlockNotFound \<Rightarrow> Inr content
      | Inl (OtherException e) \<Rightarrow> Inr content
      | Inr (data, start_index, end_index) \<Rightarrow>
          (case data of
             NotDict v \<Rightarrow> Inr content
           | Dict d \<Rightarrow>
               (case update_yaml_field py_print d of
                  Inl e \<Rightarrow> Inl e
                | Inr updated \<Rightarrow>
                    (case safe_dump updated of
                       Inl e \<Rightarrow> Inl e
                     | Inr dumped \<Rightarrow>
                         Inr (build_updated_content content start_index end_index
                                (strip dumped))))))"


text \<open>
  \<open>process_file\<close> reads the file, transforms its text and writes the result back when it
  differs from what was read. The model takes the outcome of \<open>read_text\<close> (\<open>Inl\<close> for an
  exception, which is logged before the function returns) and gives the text passed to
  \<open>write_text\<close>, or \<open>None\<close> when nothing is written. An exception that leaves
  \<open>update_yaml_content\<close> is not caught here.
\<close>

definition process_file ::
  "(str \<Rightarrow> 'x + (('k \<times> 'v) list, 'o) pyobj) \<Rightarrow> (('k \<times> 'v) list \<Rightarrow> 'x + str) \<Rightarrow>
   (('k \<times> 'v) list \<Rightarrow> 'x + unit) \<Rightarrow> 'r + str \<Rightarrow> 'x + str option" where
  "process_file safe_load safe_dump py_print read_text =
     (case read_text of
        Inl e \<Rightarrow> Inr None
      | Inr content \<Rightarrow>
          (case update_yaml_content safe_load safe_dump py_print content of
             Inl x \<Rightarrow> Inl x
           | Inr updated_content \<Rightarrow>
               if updated_content \<noteq> content then Inr (Some updated_content) else Inr None))"

section \<open>Delimiter lines of a text\<close>

text \<open>
  The properties below speak of the lines of a text whose stripped content is \<open>---\<close>.
  \<open>delimiter_indices lines\<close> lists their indices in increasing order.
\<close>

definition delimiter_indices :: "str list \<Rightarrow> nat list" where
  "delimiter_indices lines = filter (\<lambda>i. strip (lines ! i) = dash3) [0 ..< length lines]"

section \<open>Sample values of the YAML library\<close>

text \<open>
  To run the transformation on a concrete text, the library calls and \<open>print\<close> need
  values. \<open>sample_safe_load\<close> and \<open>sample_safe_dump\<close> give what PyYAML returns at the few
  block texts and mappings of the examples: the empty text loads as \<open>None\<close>, the text
  \<open>- 1\n- 2\<close> as the list \<open>[1, 2]\<close>, \<open>k: 1\<close> as \<open>{'k': 1}\<close>, and \<open>k: 0x\<close> followed
  by 4000 digits \<open>f\<close> as \<open>{'k': 16 ** 4000 - 1}\<close> (hexadecimal integers are read without a
  limit on their size). \<open>{'k': 1}\<close> dumps as \<open>k: 1\n\<close>. An integer of more than 4300
  decimal digits is not converted to a string by CPython 3.11 (\<open>ValueError\<close>); both
  \<open>print(updated_data)\<close> and \<open>yaml.safe_dump\<close> convert it, and both are outside the
  \<open>try\<close> of \<open>update_yaml_content\<close>. \<open>sample_print\<close> is \<open>print\<close> on a standard output
  that takes every text: it raises for such an integer only. At any other argument
  \<open>sample_safe_load\<close> and \<open>sample_safe_dump\<close> answer \<open>NotInSample\<close>, which says
  nothing about the library.
\<close>

datatype sample_object = SampleNone | SampleList "int list"

datatype sample_error = NotInSample | ValueError

definition max_str_digits :: nat where
  "max_str_digits = 4300"

definition int_to_str_fails :: "int \<Rightarrow> bool" where
  "int_to_str_fails v \<longleftrightarrow> 10 ^ max_str_digits \<le> \<bar>v\<bar>"

definition hex_4000_f :: int where
  "hex_4000_f = 16 ^ 4000 - 1"

definition sample_safe_load ::
  "str \<Rightarrow> sample_error + ((str \<times> int) list, sample_object) pyobj" where
  "sample_safe_load text =
     (if text = [] then Inr (NotDict SampleNone)
      else if text = ustr ''- 1\<newline>- 2'' then Inr (NotDict (SampleList [1, 2]))
      else if text = ustr ''k: 1'' then Inr (Dict [(ustr ''k'', 1)])
      else if text = ustr ''k: 0x'' @ replicate 4000 0x66
        then Inr (Dict [(ustr ''k'', hex_4000_f)])
      else Inl NotInSample)"

definition sample_print :: "(str \<times> int) list \<Rightarrow> sample_error + unit" where
  "sample_print d =
     (if list_ex (\<lambda>(k, v). int_to_str_fails v) d then Inl ValueError else Inr ())"

definition sample_safe_dump :: "(str \<times> int) list \<Rightarrow> sample_error + str" where
  "sample_safe_dump d =
     (if list_ex (\<lambda>(k, v). int_to_str_fails v) d then Inl ValueError
      else if d = [(ustr ''k'', 1)] then Inr (ustr ''k: 1\<newline>'')
      else Inl NotInSample)"

section \<open>Lines and joins\<close>

lemma is_linebreak_LF: "is_linebreak 0x0A" by (simp add: is_linebreak_def)
lemma is_linebreak_CR: "is_linebreak 0x0D" by (simp add: is_linebreak_def)

lemma splitlines_from_plain:
  "\<forall>c\<in>set l. \<not> is_linebreak c \<Longrightarrow> splitlines_from cur (l @ rest) = splitlines_from (cur @ l) rest"
proof (induction l arbitrary: cur)
  case Nil
  then show ?case by simp
next
  case (Cons c l)
  then have c: "\<not> is_linebreak c" and l: "\<forall>c\<in>set l. \<not> is_linebreak c" by simp_all
  from c have ncr: "c \<noteq> 0x0D" using is_linebreak_CR by auto
  show ?case
  proof (cases "l @ rest")
    case Nil
    then show ?thesis using c by simp
  next
    case (Cons d cs)
    have "splitlines_from cur (c # l @ rest) = splitlines_from (cur @ [c]) (l @ rest)"
      using c ncr Cons by simp
    also have "\<dots> = splitlines_from ((cur @ [c]) @ l) rest"
      using Cons.IH [OF l] by simp
    finally show ?thesis by simp
  qed
qed

lemma splitlines_from_LF:
  "splitlines_from cur (0x0A # rest) = cur # splitlines_from [] rest"
  by (cases rest) (simp_all add: is_linebreak_LF)



lemma splitlines_str_join:
  "\<forall>l\<in>set xs. \<forall>c\<in>set l. \<not> is_linebreak c \<Longrightarrow> xs = [] \<or> last xs \<noteq> [] \<Longrightarrow>
   splitlines (str_join nl xs) = xs"
proof (induction xs rule: induct_list012)
  case 1
  then show ?case by (simp add: splitlines_def)
next
  case (2 x)
  then show ?case using splitlines_from_plain [of x "[]" "[]"] by (simp add: splitlines_def)
next
  case (3 x y ys)
  have "splitlines (str_join nl (x # y # ys)) = splitlines_from [] (x @ 0x0A # str_join nl (y # ys))"
    by (simp add: splitlines_def nl_def)
  also have "\<dots> = splitlines_from x (0x0A # str_join nl (y # ys))"
    using 3 splitlines_from_plain [of x "[]"] by simp
  also have "\<dots> = x # splitlines (str_join nl (y # ys))"
    by (simp only: splitlines_from_LF splitlines_def)
  also have "\<dots> = x # y # ys"
    using 3 by simp
  finally show ?case .
qed

lemma strip_dash3: "strip dash3 = dash3"
  by (simp add: strip_def dash3_def ustr_def is_space_def)

lemma first_delimiter_None:
  "first_delimiter (enumerate n ls) = None \<longleftrightarrow> (\<forall>l\<in>set ls. strip l \<noteq> dash3)"
  by (induction ls arbitrary: n) auto

lemma first_delimiter_Some:
  "first_delimiter (enumerate n ls) = Some i \<longleftrightarrow>
     n \<le> i \<and> i - n < length ls \<and> strip (ls ! (i - n)) = dash3 \<and>
     (\<forall>j<i - n. strip (ls ! j) \<noteq> dash3)"
proof (induction ls arbitrary: n)
  case Nil
  then show ?case by simp
next
  case (Cons l ls)
  show ?case
  proof (cases "strip l = dash3")
    case True
    show ?thesis
    proof (cases "i = n")
      case True
      with \<open>strip l = dash3\<close> show ?thesis by simp
    next
      case False
      have "\<not> (\<forall>j<i - n. strip ((l # ls) ! j) \<noteq> dash3)" if "n \<le> i"
        using that False True by (intro notI) (auto dest!: spec [of _ 0])
      with False True show ?thesis by auto
    qed
  next
    case False
    have "first_delimiter (enumerate n (l # ls)) = first_delimiter (enumerate (Suc n) ls)"
      using False by simp
    also have "\<dots> = Some i \<longleftrightarrow>
       Suc n \<le> i \<and> i - Suc n < length ls \<and> strip (ls ! (i - Suc n)) = dash3 \<and>
       (\<forall>j<i - Suc n. strip (ls ! j) \<noteq> dash3)"
      by (rule Cons.IH)
    also have "\<dots> \<longleftrightarrow>
       n \<le> i \<and> i - n < length (l # ls) \<and> strip ((l # ls) ! (i - n)) = dash3 \<and>
       (\<forall>j<i - n. strip ((l # ls) ! j) \<noteq> dash3)" (is "?A \<longleftrightarrow> ?B")
    proof
      assume a: ?A
      then obtain k where k: "i - n = Suc k" "i - Suc n = k" by (metis Suc_diff_le diff_Suc_Suc)
      show ?B using a False k by (auto simp: nth_Cons split: nat.splits)
    next
      assume b: ?B
      then have "i \<noteq> n" using False by auto
      then obtain k where k: "i - n = Suc k" "i - Suc n = k" using b
        by (metis Suc_diff_Suc diff_Suc_Suc le_neq_implies_less)
      show ?A using b False k by (auto simp: nth_Cons split: nat.splits)
    qed
    finally show ?thesis .
  qed
qed

lemma next_delimiter_find:
  "next_delimiter ls is = List.find (\<lambda>i. strip (ls ! i) = dash3) is"
  by (induction "is") auto

lemma next_delimiter_None:
  "next_delimiter ls [a..<b] = None \<longleftrightarrow> (\<forall>j. a \<le> j \<and> j < b \<longrightarrow> strip (ls ! j) \<noteq> dash3)"
  by (auto simp: next_delimiter_find find_None_iff)

lemma next_delimiter_Some:
  "next_delimiter ls [a..<b] = Some e \<longleftrightarrow>
     a \<le> e \<and> e < b \<and> strip (ls ! e) = dash3 \<and>
     (\<forall>j. a \<le> j \<and> j < e \<longrightarrow> strip (ls ! j) \<noteq> dash3)" (is "?L \<longleftrightarrow> ?R")
proof
  assume ?L
  then obtain i where i: "i < length [a..<b]" "strip (ls ! ([a..<b] ! i)) = dash3"
      "e = [a..<b] ! i" "\<forall>j<i. strip (ls ! ([a..<b] ! j)) \<noteq> dash3"
    unfolding next_delimiter_find find_Some_iff by blast
  from i(1,3) have e: "e = a + i" "e < b" by auto
  have "strip (ls ! j) \<noteq> dash3" if "a \<le> j" "j < e" for j
  proof -
    from that e have "j - a < i" "[a..<b] ! (j - a) = j" by auto
    with i(4) show ?thesis by metis
  qed
  with i e show ?R by auto
next
  assume r: ?R
  have "e - a < length [a..<b]" "[a..<b] ! (e - a) = e" using r by auto
  moreover have "\<forall>j<e - a. strip (ls ! ([a..<b] ! j)) \<noteq> dash3" using r by auto
  ultimately show ?L unfolding next_delimiter_find find_Some_iff using r by metis
qed

lemma first_delimiter_0:
  "first_delimiter (enumerate 0 ls) = Some s \<longleftrightarrow>
     s < length ls \<and> strip (ls ! s) = dash3 \<and> (\<forall>j<s. strip (ls ! j) \<noteq> dash3)"
  using first_delimiter_Some [of 0 ls s] by simp

lemma find_yaml_block_indices_Some:
  "find_yaml_block_indices content = (Some s, r) \<longleftrightarrow>
     first_delimiter (enumerate 0 (splitlines content)) = Some s \<and>
     next_delimiter (splitlines content) [s + 1 ..< length (splitlines content)] = r"
  by (auto simp: find_yaml_block_indices_def Let_def split: option.splits)

lemma find_yaml_block_indices_both:
  "find_yaml_block_indices content = (Some s, Some e) \<longleftrightarrow>
     s < e \<and> e < length (splitlines content) \<and>
     strip (splitlines content ! s) = dash3 \<and> strip (splitlines content ! e) = dash3 \<and>
     (\<forall>j<s. strip (splitlines content ! j) \<noteq> dash3) \<and>
     (\<forall>j. s < j \<and> j < e \<longrightarrow> strip (splitlines content ! j) \<noteq> dash3)"
  unfolding find_yaml_block_indices_Some first_delimiter_0 next_delimiter_Some
  by (auto simp: Suc_le_eq)

lemma find_yaml_block_indices_none:
  "find_yaml_block_indices content = (None, None) \<longleftrightarrow>
     (\<forall>l\<in>set (splitlines content). strip l \<noteq> dash3)"
  using first_delimiter_None [of 0 "splitlines content"]
  by (auto simp: find_yaml_block_indices_def Let_def split: option.splits)

lemma find_yaml_block_indices_start_only:
  "find_yaml_block_indices content = (Some s, None) \<longleftrightarrow>
     s < length (splitlines content) \<and> strip (splitlines content ! s) = dash3 \<and>
     (\<forall>j<s. strip (splitlines content ! j) \<noteq> dash3) \<and>
     (\<forall>j. s < j \<and> j < length (splitlines content) \<longrightarrow> strip (splitlines content ! j) \<noteq> dash3)"
  unfolding find_yaml_block_indices_Some first_delimiter_0 next_delimiter_None
  by (auto simp: Suc_le_eq)

lemma find_yaml_block_indices_start:
  "find_yaml_block_indices content \<noteq> (None, Some e)"
  by (auto simp: find_yaml_block_indices_def Let_def split: option.splits)


section \<open>The delimiter lines and the locator\<close>

lemma filter_upt_Cons:
  "filter P [a..<n] = x # xs \<Longrightarrow>
     a \<le> x \<and> x < n \<and> P x \<and> (\<forall>j. a \<le> j \<and> j < x \<longrightarrow> \<not> P j) \<and> xs = filter P [Suc x..<n]"
proof (induction "n - a" arbitrary: a)
  case 0
  then show ?case by simp
next
  case (Suc k)
  then have an: "a < n" by simp
  then have upt: "[a..<n] = a # [Suc a..<n]" by (rule upt_conv_Cons)
  show ?case
  proof (cases "P a")
    case True
    with Suc.prems upt an show ?thesis by auto
  next
    case False
    with Suc.prems upt have f: "filter P [Suc a..<n] = x # xs" by simp
    have "k = n - Suc a" using Suc.hyps(2) by simp
    from Suc.hyps(1) [OF this f] False show ?thesis
      by (metis Suc_leD Suc_le_eq le_neq_implies_less)
  qed
qed

lemma delimiter_indices_Cons:
  assumes "delimiter_indices ls = s # rest"
  shows "s < length ls" and "strip (ls ! s) = dash3"
    and "\<forall>j<s. strip (ls ! j) \<noteq> dash3"
    and "rest = filter (\<lambda>i. strip (ls ! i) = dash3) [Suc s ..< length ls]"
  using filter_upt_Cons [OF assms [unfolded delimiter_indices_def]] by simp_all

lemma find_yaml_block_indices_one:
  assumes "delimiter_indices (splitlines content) = [s]"
  shows "find_yaml_block_indices content = (Some s, None)"
proof -
  note d = delimiter_indices_Cons [OF assms]
  from d(4) have "\<forall>j. s < j \<and> j < length (splitlines content) \<longrightarrow>
      strip (splitlines content ! j) \<noteq> dash3"
    by (auto simp: filter_empty_conv Suc_le_eq dest: sym)
  with d(1-3) show ?thesis by (simp add: find_yaml_block_indices_start_only)
qed

lemma find_yaml_block_indices_two:
  assumes "delimiter_indices (splitlines content) = s # e # rest"
  shows "find_yaml_block_indices content = (Some s, Some e)"
    and "rest = filter (\<lambda>i. strip (splitlines content ! i) = dash3)
                  [Suc e ..< length (splitlines content)]"
proof -
  note d = delimiter_indices_Cons [OF assms]
  note f = filter_upt_Cons [OF d(4) [symmetric]]
  from f show "rest = filter (\<lambda>i. strip (splitlines content ! i) = dash3)
                  [Suc e ..< length (splitlines content)]" by simp
  from d(1-3) f show "find_yaml_block_indices content = (Some s, Some e)"
    by (simp add: find_yaml_block_indices_both Suc_le_eq)
qed

section \<open>Joining lines\<close>

lemma str_join_Cons_concat: "str_join sep (a # ys) = a @ concat (map ((@) sep) ys)"
  by (induction ys arbitrary: a) simp_all

lemma str_join_append:
  "xs \<noteq> [] \<Longrightarrow> str_join sep (xs @ ys) = str_join sep xs @ concat (map ((@) sep) ys)"
  by (cases xs) (simp_all add: str_join_Cons_concat)

lemma concat_sep_shift:
  "concat (map ((@) sep) xs) @ sep @ r = sep @ concat (map (\<lambda>l. l @ sep) xs) @ r"
  by (induction xs) simp_all

lemma str_join_snoc: "str_join sep (xs @ [x]) = concat (map (\<lambda>l. l @ sep) xs) @ x"
  by (cases xs) (simp_all add: str_join_Cons_concat concat_sep_shift)

lemma build_updated_content_concat:
  "build_updated_content content s e updated_yaml =
     concat (map (\<lambda>l. l @ nl) (take s (splitlines content))) @ dash3 @ nl @
     concat (map (\<lambda>l. l @ nl) (splitlines updated_yaml)) @ dash3 @
     concat (map ((@) nl) (drop (e + 1) (splitlines content)))"
proof -
  let ?pre = "take s (splitlines content)" and ?post = "drop (e + 1) (splitlines content)"
  let ?Y = "splitlines updated_yaml"
  have "str_join nl (?pre @ [dash3] @ ?Y @ [dash3] @ ?post) =
        str_join nl ((?pre @ [dash3] @ ?Y) @ [dash3]) @ concat (map ((@) nl) ?post)"
    using str_join_append [of "(?pre @ [dash3] @ ?Y) @ [dash3]" nl ?post] by simp
  then show ?thesis
    unfolding build_updated_content_def Let_def str_join_snoc by simp
qed

lemma take_nth_upt: "s \<le> length xs \<Longrightarrow> take s xs = map ((!) xs) [0..<s]"
  by (metis add_0 map_nth take_map take_upt)

lemma drop_nth_upt: "drop n xs = map ((!) xs) [n..<length xs]"
  by (metis add_0 drop_map drop_upt map_nth)


section \<open>The integers of the sample\<close>

lemma int_to_str_ok_1: "\<not> int_to_str_fails 1"
proof -
  have "(1::int) < 10 ^ max_str_digits"
    by (rule one_less_power) (simp_all add: max_str_digits_def)
  then show ?thesis by (simp add: int_to_str_fails_def)
qed

text \<open>
  \<open>16 ** 4000 - 1\<close> has more than 4300 decimal digits: \<open>10 ** 6 \<le> 16 ** 5\<close>, so
  \<open>10 ** 4300 \<le> 16 ** 3584\<close>.
\<close>

lemma int_to_str_fails_hex: "int_to_str_fails hex_4000_f"
proof -
  have n: "(4300::nat) = 6 * 716 + 4" by simp
  have m: "(3584::nat) = 5 * 716 + 4" by simp
  have "(10::int) ^ 4300 = 10 ^ (6 * 716 + 4)" by (subst n) (rule refl)
  also have "\<dots> = (10 ^ 6) ^ 716 * 10 ^ 4" by (simp only: power_add power_mult)
  also have "\<dots> \<le> (16 ^ 5) ^ 716 * 16 ^ 4"
  proof (rule mult_mono)
    show "((10::int) ^ 6) ^ 716 \<le> (16 ^ 5) ^ 716" by (rule power_mono) simp_all
    show "(10::int) ^ 4 \<le> 16 ^ 4" by simp
    show "(0::int) \<le> (16 ^ 5) ^ 716" by (rule zero_le_power) simp
    show "(0::int) \<le> 10 ^ 4" by simp
  qed
  also have "\<dots> = 16 ^ (5 * 716 + 4)" by (simp only: power_add power_mult)
  also have "\<dots> = 16 ^ 3584" by (subst m) (rule refl)
  also have "\<dots> < 16 ^ 4000" by (rule power_strict_increasing) simp_all
  finally have lt: "(10::int) ^ 4300 < 16 ^ 4000" .
  have "a \<le> \<bar>b - 1\<bar>" if "a < b" for a b :: int using that by linarith
  from this [OF lt] show ?thesis
    unfolding int_to_str_fails_def hex_4000_f_def max_str_digits_def .
qed

section \<open>Evaluation of concrete texts\<close>

lemmas text_eval =
  splitlines_def ustr_def is_linebreak_def strip_def is_space_def dash3_def nl_def
  enumerate_eq_zip upt_rec find_yaml_block_indices_def delimiter_indices_def

section \<open>Properties of the locator and the parser\<close>

text \<open>
  C2. A text with exactly one line whose stripped content is \<open>---\<close> makes
  \<open>extract_yaml_data\<close> raise \<open>YamlBlockNotFound\<close>, whatever the YAML library would do:
  the library is not called.
\<close>

theorem extract_yaml_data_single_delimiter:
  assumes "length (delimiter_indices (splitlines content)) = 1"
  shows "extract_yaml_data safe_load content = Inl YamlBlockNotFound"
proof -
  from assms obtain s where "delimiter_indices (splitlines content) = [s]"
    by (cases "delimiter_indices (splitlines content)") simp_all
  then have "find_yaml_block_indices content = (Some s, None)"
    by (rule find_yaml_block_indices_one)
  then show ?thesis by (simp add: extract_yaml_data_def)
qed

theorem extract_yaml_data_single_delimiter_witness:
  "length (delimiter_indices (splitlines (ustr ''title\<newline>---\<newline>k: 1''))) = 1 \<and>
   extract_yaml_data sample_safe_load (ustr ''title\<newline>---\<newline>k: 1'') = Inl YamlBlockNotFound"
proof -
  have h: "length (delimiter_indices (splitlines (ustr ''title\<newline>---\<newline>k: 1''))) = 1"
    by (simp add: text_eval)
  from extract_yaml_data_single_delimiter [OF h, of sample_safe_load] h show ?thesis by simp
qed

text \<open>
  C3. A text without a line whose stripped content is \<open>---\<close>: the locator returns
  \<open>(None, None)\<close>, \<open>update_yaml_content\<close> returns the text it was given, and
  \<open>process_file\<close> writes nothing.
\<close>

theorem no_delimiter_unchanged:
  assumes "\<forall>l\<in>set (splitlines content). strip l \<noteq> dash3"
  shows "find_yaml_block_indices content = (None, None) \<and>
         update_yaml_content safe_load safe_dump py_print content = Inr content \<and>
         process_file safe_load safe_dump py_print (Inr content) = Inr None"
proof -
  from assms have "find_yaml_block_indices content = (None, None)"
    by (simp add: find_yaml_block_indices_none)
  then show ?thesis
    by (simp add: process_file_def update_yaml_content_def extract_yaml_data_def)
qed

theorem no_delimiter_unchanged_witness:
  "find_yaml_block_indices (ustr ''k: 1\<newline>-- \<newline>text'') = (None, None) \<and>
   update_yaml_content sample_safe_load sample_safe_dump sample_print (ustr ''k: 1\<newline>-- \<newline>text'')
     = Inr (ustr ''k: 1\<newline>-- \<newline>text'') \<and>
   process_file sample_safe_load sample_safe_dump sample_print (Inr (ustr ''k: 1\<newline>-- \<newline>text''))
     = Inr None"
proof -
  have h: "\<forall>l\<in>set (splitlines (ustr ''k: 1\<newline>-- \<newline>text'')). strip l \<noteq> dash3"
    by (simp add: text_eval)
  from no_delimiter_unchanged [OF h, where safe_load = sample_safe_load and safe_dump = sample_safe_dump
      and py_print = sample_print]
  show ?thesis .
qed

text \<open>
  C7. The docstring of \<open>find_yaml_block_indices\<close> promises \<open>(None, None)\<close> when no block
  is found. For a text with an opening \<open>---\<close> line and no closing one the function
  returns the start index with \<open>None\<close>, which differs from what it returns for a text
  without any \<open>---\<close> line.
\<close>

theorem unterminated_block_start_index:
  "find_yaml_block_indices (ustr ''---\<newline>k: 1'') = (Some 0, None) \<and>
   find_yaml_block_indices (ustr ''k: 1'') = (None, None)"
  by (simp add: text_eval)

text \<open>
  C9. When the locator returns two indices, the first is smaller than the second, both
  are indices of lines of the text, and both lines have the stripped content \<open>---\<close>.
\<close>

theorem find_yaml_block_indices_invariant:
  assumes "find_yaml_block_indices content = (Some s, Some e)"
  shows "s < e \<and> s < length (splitlines content) \<and> e < length (splitlines content) \<and>
         strip (splitlines content ! s) = dash3 \<and> strip (splitlines content ! e) = dash3"
  using assms by (auto simp: find_yaml_block_indices_both)

theorem find_yaml_block_indices_invariant_witness:
  "find_yaml_block_indices (ustr ''A\<newline> ---\<newline>k: 1\<newline>---\<newline>B'') = (Some 1, Some 3) \<and>
   (1::nat) < 3 \<and> 1 < length (splitlines (ustr ''A\<newline> ---\<newline>k: 1\<newline>---\<newline>B'')) \<and>
   3 < length (splitlines (ustr ''A\<newline> ---\<newline>k: 1\<newline>---\<newline>B'')) \<and>
   strip (splitlines (ustr ''A\<newline> ---\<newline>k: 1\<newline>---\<newline>B'') ! 1) = dash3 \<and>
   strip (splitlines (ustr ''A\<newline> ---\<newline>k: 1\<newline>---\<newline>B'') ! 3) = dash3"
proof -
  have h: "find_yaml_block_indices (ustr ''A\<newline> ---\<newline>k: 1\<newline>---\<newline>B'') = (Some 1, Some 3)"
    by (simp add: text_eval)
  from find_yaml_block_indices_invariant [OF h] h show ?thesis by simp
qed

section \<open>Properties of the transformation\<close>

text \<open>
  C6. When the lines between the two delimiters load as a value that is not a \<open>dict\<close>,
  \<open>extract_yaml_data\<close> returns that value, \<open>update_yaml_content\<close> returns the text
  it was given, and \<open>process_file\<close> writes nothing.
\<close>

theorem non_mapping_unchanged:
  assumes "find_yaml_block_indices content = (Some s, Some e)"
    and "safe_load (str_join nl (drop (s + 1) (take e (splitlines content)))) = Inr (NotDict v)"
  shows "extract_yaml_data safe_load content = Inr (NotDict v, s, e) \<and>
         update_yaml_content safe_load safe_dump py_print content = Inr content \<and>
         process_file safe_load safe_dump py_print (Inr content) = Inr None"
  using assms by (simp add: process_file_def update_yaml_content_def extract_yaml_data_def)

theorem non_mapping_unchanged_witness:
  "extract_yaml_data sample_safe_load (ustr ''---\<newline>- 1\<newline>- 2\<newline>---\<newline>body\<newline>'')
     = Inr (NotDict (SampleList [1, 2]), 0, 3) \<and>
   update_yaml_content sample_safe_load sample_safe_dump sample_print
     (ustr ''---\<newline>- 1\<newline>- 2\<newline>---\<newline>body\<newline>'')
     = Inr (ustr ''---\<newline>- 1\<newline>- 2\<newline>---\<newline>body\<newline>'') \<and>
   process_file sample_safe_load sample_safe_dump sample_print
     (Inr (ustr ''---\<newline>- 1\<newline>- 2\<newline>---\<newline>body\<newline>'')) = Inr None"
proof -
  let ?c = "ustr ''---\<newline>- 1\<newline>- 2\<newline>---\<newline>body\<newline>''"
  have h1: "find_yaml_block_indices ?c = (Some 0, Some 3)"
    by (simp add: text_eval)
  have h2: "sample_safe_load (str_join nl (drop (0 + 1) (take 3 (splitlines ?c))))
              = Inr (NotDict (SampleList [1, 2]))"
    by (simp add: text_eval sample_safe_load_def)
  from non_mapping_unchanged
    [where safe_load = sample_safe_load and safe_dump = sample_safe_dump
      and py_print = sample_print, OF h1 h2]
  show ?thesis .
qed

text \<open>
  C8, as the code has it. \<open>update_yaml_field\<close> never changes the dictionary it is given,
  nor any other object of the store, whether it returns or raises. When \<open>print\<close> returns,
  the function returns a new object with the same entries (the values are shared, not
  copied) and the line is printed; as a function of values it then returns its argument.
  When \<open>print\<close> raises, the exception leaves the function and no copy is returned.
\<close>

theorem update_yaml_field_frame:
  assumes "store_ok st" and "heap st data = Some d"
  shows "\<exists>st' res. update_yaml_field_store py_print st data = Some (st', res) \<and>
           heap st' data = Some d \<and>
           (\<forall>a. a \<noteq> next_addr st \<longrightarrow> heap st' a = heap st a) \<and>
           next_addr st \<noteq> data \<and> heap st (next_addr st) = None \<and> store_ok st' \<and>
           (case py_print d of
              Inr u \<Rightarrow>
                res = Inr (next_addr st) \<and> heap st' (next_addr st) = Some d \<and>
                stdout st' = stdout st @ [d] \<and> update_yaml_field py_print d = Inr d
            | Inl x \<Rightarrow> res = Inl x \<and> update_yaml_field py_print d = Inl x)"
proof -
  from assms have fresh: "heap st (next_addr st) = None" "next_addr st \<noteq> data"
    by (auto simp: store_ok_def)
  show ?thesis
  proof (cases "py_print d")
    case (Inl x)
    with assms fresh show ?thesis
      by (auto simp: update_yaml_field_store_def update_yaml_field_def store_ok_def Let_def
          less_Suc_eq)
  next
    case (Inr u)
    with assms fresh show ?thesis
      by (auto simp: update_yaml_field_store_def update_yaml_field_def store_ok_def Let_def
          less_Suc_eq)
  qed
qed

theorem update_yaml_field_frame_witness:
  "update_yaml_field_store sample_print
     \<lparr>heap = [0 \<mapsto> [(ustr ''k'', 1)]], next_addr = 1, stdout = []\<rparr> 0 =
   Some (\<lparr>heap = [0 \<mapsto> [(ustr ''k'', 1)], 1 \<mapsto> [(ustr ''k'', 1)]], next_addr = 2,
           stdout = [[(ustr ''k'', 1)]]\<rparr>, Inr 1) \<and>
   update_yaml_field sample_print [(ustr ''k'', 1)] = Inr [(ustr ''k'', 1)]"
proof -
  let ?st = "\<lparr>heap = [0 \<mapsto> [(ustr ''k'', 1::int)]], next_addr = 1, stdout = []\<rparr>"
  have h1: "store_ok ?st" by (simp add: store_ok_def)
  have h2: "heap ?st 0 = Some [(ustr ''k'', 1)]" by simp
  have p: "sample_print [(ustr ''k'', 1)] = Inr ()"
    by (simp add: sample_print_def int_to_str_ok_1)
  from update_yaml_field_frame [OF h1 h2, where py_print = sample_print] p
  obtain st' where r: "update_yaml_field_store sample_print ?st 0 = Some (st', Inr 1)"
    and v: "update_yaml_field sample_print [(ustr ''k'', 1)] = Inr [(ustr ''k'', 1)]"
    by auto
  from v show ?thesis
    by (simp add: update_yaml_field_store_def Let_def p)
qed

text \<open>
  C8, as the spec has it, fails: for the dictionary \<open>{'k': 16 ** 4000 - 1}\<close> the call
  \<open>print(updated_data)\<close> raises \<open>ValueError\<close>, so \<open>update_yaml_field\<close> returns no copy.
  The argument is unchanged there as well.
\<close>

theorem update_yaml_field_raises:
  "update_yaml_field sample_print [(ustr ''k'', hex_4000_f)] = Inl ValueError \<and>
   update_yaml_field_store sample_print
     \<lparr>heap = [0 \<mapsto> [(ustr ''k'', hex_4000_f)]], next_addr = 1, stdout = []\<rparr> 0 =
   Some (\<lparr>heap = [0 \<mapsto> [(ustr ''k'', hex_4000_f)], 1 \<mapsto> [(ustr ''k'', hex_4000_f)]],
           next_addr = 2, stdout = []\<rparr>, Inl ValueError)"
  by (simp add: update_yaml_field_def update_yaml_field_store_def sample_print_def
      int_to_str_fails_hex Let_def)

text \<open>
  C5. For a text with a located block, the rebuilt text consists of every line before the
  start index, each followed by a line feed, the delimiter, the lines of the new YAML
  text, the delimiter, and every line after the end index, each preceded by a line feed:
  the lines outside the block are copied as they are, with the line feed as the only
  line terminator and none after the last line. On the text \<open>A\n---\nk: 1\n---\nB\n\<close>
  the transformation gives \<open>A\n---\nk: 1\n---\nB\<close>.
\<close>

theorem outside_lines_preserved:
  "(find_yaml_block_indices content = (Some s, Some e) \<longrightarrow>
      build_updated_content content s e updated_yaml =
        concat (map (\<lambda>i. splitlines content ! i @ nl) [0 ..< s]) @ dash3 @ nl @
        concat (map (\<lambda>l. l @ nl) (splitlines updated_yaml)) @ dash3 @
        concat (map (\<lambda>i. nl @ splitlines content ! i) [e + 1 ..< length (splitlines content)])) \<and>
   update_yaml_content sample_safe_load sample_safe_dump sample_print
     (ustr ''A\<newline>---\<newline>k: 1\<newline>---\<newline>B\<newline>'')
     = Inr (ustr ''A\<newline>---\<newline>k: 1\<newline>---\<newline>B'')"
proof (intro conjI impI)
  assume "find_yaml_block_indices content = (Some s, Some e)"
  then have "s \<le> length (splitlines content)"
    by (simp add: find_yaml_block_indices_both)
  then have "take s (splitlines content) = map ((!) (splitlines content)) [0..<s]"
    by (rule take_nth_upt)
  moreover have "drop (e + 1) (splitlines content) =
      map ((!) (splitlines content)) [e + 1 ..< length (splitlines content)]"
    by (rule drop_nth_upt)
  ultimately show "build_updated_content content s e updated_yaml =
        concat (map (\<lambda>i. splitlines content ! i @ nl) [0 ..< s]) @ dash3 @ nl @
        concat (map (\<lambda>l. l @ nl) (splitlines updated_yaml)) @ dash3 @
        concat (map (\<lambda>i. nl @ splitlines content ! i) [e + 1 ..< length (splitlines content)])"
    by (simp add: build_updated_content_concat comp_def)
next
  show "update_yaml_content sample_safe_load sample_safe_dump sample_print
     (ustr ''A\<newline>---\<newline>k: 1\<newline>---\<newline>B\<newline>'')
     = Inr (ustr ''A\<newline>---\<newline>k: 1\<newline>---\<newline>B'')"
    by (simp add: update_yaml_content_def extract_yaml_data_def build_updated_content_def
        update_yaml_field_def sample_safe_load_def sample_safe_dump_def sample_print_def
        int_to_str_ok_1 text_eval)
qed

theorem outside_lines_preserved_witness:
  "build_updated_content (ustr ''A\<newline>---\<newline>k: 1\<newline>---\<newline>B\<newline>'') 1 3 (ustr ''k: 2'')
     = ustr ''A\<newline>---\<newline>k: 2\<newline>---\<newline>B''"
proof -
  let ?c = "ustr ''A\<newline>---\<newline>k: 1\<newline>---\<newline>B\<newline>''"
  have h: "find_yaml_block_indices ?c = (Some 1, Some 3)"
    by (simp add: text_eval)
  from outside_lines_preserved [of ?c 1 3 "ustr ''k: 2''"] h
  have "build_updated_content ?c 1 3 (ustr ''k: 2'') =
        concat (map (\<lambda>i. splitlines ?c ! i @ nl) [0 ..< 1]) @ dash3 @ nl @
        concat (map (\<lambda>l. l @ nl) (splitlines (ustr ''k: 2''))) @ dash3 @
        concat (map (\<lambda>i. nl @ splitlines ?c ! i) [3 + 1 ..< length (splitlines ?c)])"
    by blast
  also have "\<dots> = ustr ''A\<newline>---\<newline>k: 2\<newline>---\<newline>B''"
    by (simp add: text_eval)
  finally show ?thesis .
qed

text \<open>
  C4. For a text with two or more lines whose stripped content is \<open>---\<close>, the locator
  returns the indices of the first two of them. The rebuilt text ends with the lines after
  the end index, each preceded by a line feed, and every later \<open>---\<close> line is one of
  these lines, at its place.
\<close>

theorem first_pair_is_the_block:
  assumes "2 \<le> length (delimiter_indices (splitlines content))"
  shows "(let L = splitlines content; D = delimiter_indices L; s = D ! 0; e = D ! 1 in
      find_yaml_block_indices content = (Some s, Some e) \<and>
      build_updated_content content s e updated_yaml =
        str_join nl (take s L @ [dash3] @ splitlines updated_yaml @ [dash3]) @
        concat (map ((@) nl) (drop (e + 1) L)) \<and>
      (\<forall>k. 2 \<le> k \<and> k < length D \<longrightarrow>
         e < D ! k \<and> D ! k < length L \<and> strip (L ! (D ! k)) = dash3 \<and>
         drop (e + 1) L ! (D ! k - (e + 1)) = L ! (D ! k)))"
proof -
  let ?L = "splitlines content"
  from assms obtain s e rest where D: "delimiter_indices ?L = s # e # rest"
    by (cases "delimiter_indices ?L"; cases "tl (delimiter_indices ?L)") auto
  note two = find_yaml_block_indices_two [OF D]
  have build: "build_updated_content content s e updated_yaml =
        str_join nl (take s ?L @ [dash3] @ splitlines updated_yaml @ [dash3]) @
        concat (map ((@) nl) (drop (e + 1) ?L))"
    using str_join_append [of "take s ?L @ [dash3] @ splitlines updated_yaml @ [dash3]" nl
        "drop (e + 1) ?L"]
    by (simp add: build_updated_content_def Let_def)
  have later: "e < (s # e # rest) ! k \<and> (s # e # rest) ! k < length ?L \<and>
      strip (?L ! ((s # e # rest) ! k)) = dash3 \<and>
      drop (e + 1) ?L ! ((s # e # rest) ! k - (e + 1)) = ?L ! ((s # e # rest) ! k)"
    if k: "2 \<le> k" "k < length (s # e # rest)" for k
  proof -
    from k obtain m where m: "k = Suc (Suc m)" "m < length rest"
      by (metis Suc_less_eq add_2_eq_Suc le_Suc_ex length_Cons)
    then have "rest ! m \<in> set rest" by simp
    then have r: "e < rest ! m" "rest ! m < length ?L" "strip (?L ! (rest ! m)) = dash3"
      by (subst (asm) two(2), simp)+
    then have "drop (e + 1) ?L ! (rest ! m - (e + 1)) = ?L ! (rest ! m)" by simp
    with r m show ?thesis by simp
  qed
  show ?thesis unfolding Let_def D using two(1) build later by simp
qed

theorem first_pair_is_the_block_witness:
  "find_yaml_block_indices (ustr ''---\<newline>k: 1\<newline>---\<newline>B\<newline>---\<newline>C'') = (Some 0, Some 2) \<and>
   build_updated_content (ustr ''---\<newline>k: 1\<newline>---\<newline>B\<newline>---\<newline>C'') 0 2 (ustr ''k: 2'')
     = ustr ''---\<newline>k: 2\<newline>---\<newline>B\<newline>---\<newline>C''"
proof -
  let ?c = "ustr ''---\<newline>k: 1\<newline>---\<newline>B\<newline>---\<newline>C''"
  have D: "delimiter_indices (splitlines ?c) = [0, 2, 4]"
    by (simp add: text_eval)
  then have h: "2 \<le> length (delimiter_indices (splitlines ?c))" by simp
  from first_pair_is_the_block [OF h, of "ustr ''k: 2''"]
  have "find_yaml_block_indices ?c = (Some 0, Some 2)"
    and "build_updated_content ?c 0 2 (ustr ''k: 2'') =
        str_join nl (take 0 (splitlines ?c) @ [dash3] @ splitlines (ustr ''k: 2'') @ [dash3]) @
        concat (map ((@) nl) (drop (2 + 1) (splitlines ?c)))"
    unfolding Let_def D by simp_all
  moreover have "str_join nl (take 0 (splitlines ?c) @ [dash3] @ splitlines (ustr ''k: 2'') @ [dash3]) @
        concat (map ((@) nl) (drop (2 + 1) (splitlines ?c))) =
        ustr ''---\<newline>k: 2\<newline>---\<newline>B\<newline>---\<newline>C''"
    by (simp add: text_eval)
  ultimately show ?thesis by simp
qed

lemma strip_keeps_head:
  assumes "\<not> is_space x"
  shows "strip (x # t) = x # rev (dropWhile is_space (rev t))"
  using assms by (simp add: strip_def dropWhile_append3)

lemma update_yaml_content_caught:
  "extract_yaml_data safe_load content = Inl err \<Longrightarrow>
   update_yaml_content safe_load safe_dump py_print content = Inr content"
  by (cases err) (simp_all add: update_yaml_content_def)

lemma update_yaml_content_print_raises:
  "extract_yaml_data safe_load content = Inr (Dict d, s, e) \<Longrightarrow> py_print d = Inl x \<Longrightarrow>
   update_yaml_content safe_load safe_dump py_print content = Inl x"
  by (simp add: update_yaml_content_def update_yaml_field_def)

lemma update_yaml_content_dump_raises:
  "extract_yaml_data safe_load content = Inr (Dict d, s, e) \<Longrightarrow> py_print d = Inr u \<Longrightarrow>
   safe_dump d = Inl x \<Longrightarrow>
   update_yaml_content safe_load safe_dump py_print content = Inl x"
  by (simp add: update_yaml_content_def update_yaml_field_def)

text \<open>
  C10. Every exception of \<open>extract_yaml_data\<close> is caught and gives back the text
  (\<open>update_yaml_content_caught\<close>), and so does a value that is not a \<open>dict\<close>. The calls
  that follow are outside the \<open>try\<close>: an exception of \<open>print\<close> in \<open>update_yaml_field\<close>
  or of \<open>yaml.safe_dump\<close> leaves \<open>update_yaml_content\<close>
  (\<open>update_yaml_content_print_raises\<close>, \<open>update_yaml_content_dump_raises\<close>), although its
  docstring promises the original text when the block cannot be processed. The text below
  has a block whose value is a hexadecimal integer of 4000 digits: it loads, and
  converting it to decimal raises \<open>ValueError\<close>, in \<open>print\<close> first, and in
  \<open>yaml.safe_dump\<close> were \<open>print\<close> to return.
\<close>

theorem dump_error_not_caught:
  "update_yaml_content sample_safe_load sample_safe_dump sample_print
     (ustr ''---\<newline>k: 0x'' @ replicate 4000 0x66 @ ustr ''\<newline>---'') = Inl ValueError \<and>
   process_file sample_safe_load sample_safe_dump sample_print
     (Inr (ustr ''---\<newline>k: 0x'' @ replicate 4000 0x66 @ ustr ''\<newline>---'')) = Inl ValueError \<and>
   update_yaml_content sample_safe_load sample_safe_dump (\<lambda>d. Inr ())
     (ustr ''---\<newline>k: 0x'' @ replicate 4000 0x66 @ ustr ''\<newline>---'') = Inl ValueError"
proof -
  let ?big = "ustr ''k: 0x'' @ replicate 4000 0x66"
  let ?c = "ustr ''---\<newline>k: 0x'' @ replicate 4000 0x66 @ ustr ''\<newline>---''"
  have c: "?c = str_join nl [dash3, ?big, dash3]"
    by (simp add: ustr_def dash3_def nl_def)
  have plain: "\<forall>l\<in>set [dash3, ?big, dash3]. \<forall>c\<in>set l. \<not> is_linebreak c"
    by (auto simp: ustr_def dash3_def is_linebreak_def)
  have L: "splitlines ?c = [dash3, ?big, dash3]"
    unfolding c by (rule splitlines_str_join [OF plain]) (simp add: dash3_def ustr_def)
  have "strip ?big = 107 # rev (dropWhile is_space (rev (ustr '': 0x'' @ replicate 4000 0x66)))"
    using strip_keeps_head [of 107] by (simp add: ustr_def is_space_def)
  then have big: "strip ?big \<noteq> dash3" by (simp add: dash3_def ustr_def)
  have "\<forall>j. 0 < j \<and> j < 2 \<longrightarrow> strip ([dash3, ?big, dash3] ! j) \<noteq> dash3"
  proof (intro allI impI)
    fix j :: nat assume "0 < j \<and> j < 2"
    then have "j = 1" by simp
    with big show "strip ([dash3, ?big, dash3] ! j) \<noteq> dash3" by simp
  qed
  then have f: "find_yaml_block_indices ?c = (Some 0, Some 2)"
    unfolding find_yaml_block_indices_both L by (simp add: strip_dash3)
  have load: "sample_safe_load ?big = Inr (Dict [(ustr ''k'', hex_4000_f)])"
    by (simp add: sample_safe_load_def ustr_def)
  have e: "extract_yaml_data sample_safe_load ?c = Inr (Dict [(ustr ''k'', hex_4000_f)], 0, 2)"
    using f load by (simp add: extract_yaml_data_def L)
  have d: "sample_safe_dump [(ustr ''k'', hex_4000_f)] = Inl ValueError"
    by (simp add: sample_safe_dump_def int_to_str_fails_hex)
  have p: "sample_print [(ustr ''k'', hex_4000_f)] = Inl ValueError"
    by (simp add: sample_print_def int_to_str_fails_hex)
  have q: "(\<lambda>d::(str \<times> int) list. Inr ()) [(ustr ''k'', hex_4000_f)] = (Inr () :: sample_error + unit)"
    by simp
  from update_yaml_content_print_raises
    [where safe_load = sample_safe_load and safe_dump = sample_safe_dump
      and py_print = sample_print, OF e p]
    update_yaml_content_dump_raises
    [where safe_load = sample_safe_load and safe_dump = sample_safe_dump
      and py_print = "\<lambda>d. Inr ()", OF e q d]
  show ?thesis by (simp add: process_file_def)
qed

section \<open>A second run over the rebuilt text\<close>









end
